theory Spec2Isabelle
  imports Complex_Main "HOL-Library.AList"
begin

section \<open>The Searcher of \<^verbatim>\<open>src/warp/searcher.py\<close>\<close>

subsection \<open>Values, configurations and errors\<close>

text \<open>
  Python values that occur as configuration options or constructor arguments. A float
  literal of the source (\<^verbatim>\<open>0.5\<close>, \<^verbatim>\<open>0.45\<close>, \<^verbatim>\<open>0.4\<close>) is
  kept as the rational its decimal notation denotes; the Searcher never computes with it.
  Python's \<^verbatim>\<open>None\<close> is \<open>None\<close> of \<open>val option\<close>.
\<close>

datatype val = IntV int | FloatV rat | BoolV bool | StrV string | CollV "string list"

text \<open>
  A configuration maps option names to values; an option that is unset reads as
  \<^verbatim>\<open>None\<close>, which is what the source tests (\<^verbatim>\<open>self.config.ncells is None\<close>).
\<close>

type_synonym Configuration = "string \<rightharpoonup> val"

datatype error =
    ValueError string
  | AttributeError string
  | TypeError string
  | KeyError
  | OSError string
  | RuntimeError string
  | ConfigLoadError
  | EncodingError
  | RankingError

text \<open>Python truthiness (\<^verbatim>\<open>if x\<close>, \<^verbatim>\<open>x or y\<close>, \<^verbatim>\<open>x and y\<close>).\<close>

fun truthy :: "val option \<Rightarrow> bool" where
  "truthy None = False"
| "truthy (Some (IntV n)) = (n \<noteq> 0)"
| "truthy (Some (FloatV r)) = (r \<noteq> 0)"
| "truthy (Some (BoolV b)) = b"
| "truthy (Some (StrV s)) = (s \<noteq> [])"
| "truthy (Some (CollV c)) = (c \<noteq> [])"

definition py_or :: "val option \<Rightarrow> val option \<Rightarrow> val option" where
  "py_or a b = (if truthy a then a else b)"

text \<open>
  \<^verbatim>\<open>x > 0\<close> on a Python value: numbers compare (a bool is the integer 0 or 1),
  anything else raises \<^verbatim>\<open>TypeError\<close>.
\<close>

fun py_gt0 :: "val option \<Rightarrow> error + bool" where
  "py_gt0 (Some (IntV n)) = Inr (n > 0)"
| "py_gt0 (Some (FloatV r)) = Inr (r > 0)"
| "py_gt0 (Some (BoolV b)) = Inr b"
| "py_gt0 _ = Inl (TypeError ''> not supported'')"

text \<open>Python's \<^verbatim>\<open>xs[:k]\<close> on a list: a negative \<open>k\<close> counts from the end.\<close>

definition slice_to :: "int \<Rightarrow> 'a list \<Rightarrow> 'a list" where
  "slice_to k xs =
     (if 0 \<le> k then take (nat k) xs else take (nat (int (length xs) + k)) xs)"

text \<open>
  Modelled from the spec: \<^verbatim>\<open>ColBERTConfig.configure\<close> (module
  \<^verbatim>\<open>warp.infra.config\<close>) is not under src/. The spec describes it as
  ``\<^verbatim>\<open>configure(**options)\<close> to set/override Configuration options at any time'':
  every keyword argument becomes the value of the option of that name.
\<close>

definition Config_configure :: "Configuration \<Rightarrow> (string \<times> val option) list \<Rightarrow> Configuration" where
  "Config_configure cfg kw_args = foldl (\<lambda>c (key, v). c(key := v)) cfg kw_args"

subsection \<open>Ranking backends and the Searcher object\<close>

text \<open>
  The three backend classes, each with the arguments its constructor receives in
  \<^verbatim>\<open>Searcher.__init__\<close>: the index path, \<^verbatim>\<open>use_gpu\<close>,
  \<^verbatim>\<open>load_index_with_mmap\<close>, and for the WARP engines \<^verbatim>\<open>t_prime\<close>,
  \<^verbatim>\<open>bound\<close> and (parallel only) \<^verbatim>\<open>fused_decompression_merge\<close>. The WARP
  engines also receive a reference to the Searcher's own configuration object, which is
  the \<open>config\<close> field of the Searcher below.
\<close>

datatype ranker =
    IndexScorer string bool "val option"
  | IndexScorerWARP string bool "val option" "val option" "val option"
  | ParallelIndexScorerWARP string bool "val option" "val option" "val option" "val option"

record Checkpoint =
  name :: "val option"
  on_cuda :: bool
  with_warp_config :: bool

record Searcher =
  index :: string
  index_config :: Configuration
  checkpoint_config :: Configuration
  config :: Configuration
  collection :: val
  checkpoint :: Checkpoint
  warp_engine :: bool
  ranker :: ranker

text \<open>
  A \<^verbatim>\<open>WARPRunConfig\<close>: its \<^verbatim>\<open>colbert()\<close> yields a plain configuration,
  and it carries the WARP engine's own parameters.
\<close>

record WARPRunConfig =
  colbert :: Configuration
  t_prime :: "val option"
  bound :: "val option"
  fused_ext :: "val option"

text \<open>
  The collaborators of the Searcher that are outside \<^verbatim>\<open>searcher.py\<close>:
  the process-level run configuration \<^verbatim>\<open>Run().config\<close>, the two configuration
  loaders, \<^verbatim>\<open>Collection.cast\<close>, the constructor \<^verbatim>\<open>Checkpoint(...)\<close> (given
  the checkpoint's name, the configuration and \<^verbatim>\<open>warp_config\<close>),
  \<^verbatim>\<open>checkpoint.cuda()\<close>, the constructor of the backend (given the backend with
  its arguments, and the configuration when the backend receives it),
  \<^verbatim>\<open>torch.get_num_threads()\<close>, the query encoder
  \<^verbatim>\<open>checkpoint.queryFromText\<close> (given \<^verbatim>\<open>query_maxlen\<close>, the texts,
  \<^verbatim>\<open>bsize\<close> and \<^verbatim>\<open>full_length_search\<close>) and the backend's
  \<^verbatim>\<open>rank\<close> (given the backend, the configuration, the query rows, \<open>k\<close> when
  the WARP engine is used, \<^verbatim>\<open>filter_fn\<close> and \<^verbatim>\<open>pids\<close>). Each call may
  raise: \<open>Inl\<close> is the exception. The two constructors and \<^verbatim>\<open>cuda()\<close> return
  objects of which the Searcher keeps what the records above hold, so they return
  \<open>unit\<close> here. \<open>'q\<close> is an encoded query row, \<open>'f\<close> a filter function, \<open>'sc\<close> a
  score.
\<close>

record ('q, 'f, 'sc) env =
  run_config :: Configuration
  load_from_index :: "string \<Rightarrow> error + Configuration"
  load_from_checkpoint :: "val option \<Rightarrow> error + Configuration"
  Collection_cast :: "val option \<Rightarrow> error + val"
  Checkpoint_init :: "val option \<Rightarrow> Configuration \<Rightarrow> WARPRunConfig option \<Rightarrow> error + unit"
  Checkpoint_cuda :: "val option \<Rightarrow> error + unit"
  ranker_init :: "ranker \<Rightarrow> Configuration option \<Rightarrow> error + unit"
  get_num_threads :: int
  queryFromText :: "val option \<Rightarrow> string list \<Rightarrow> nat option \<Rightarrow> bool \<Rightarrow> error + 'q list"
  rank :: "ranker \<Rightarrow> Configuration \<Rightarrow> 'q list \<Rightarrow> int option \<Rightarrow> 'f option \<Rightarrow> int list option
             \<Rightarrow> error + (int list \<times> 'sc list)"

subsection \<open>\<^verbatim>\<open>Searcher.configure\<close>\<close>

definition configure :: "Searcher \<Rightarrow> (string \<times> val option) list \<Rightarrow> Searcher" where
  "configure s kw_args = s\<lparr>config := Config_configure (config s) kw_args\<rparr>"

subsection \<open>\<^verbatim>\<open>Searcher.dense_search\<close>\<close>

text \<open>
  The statement pattern of lines 169--188,
  \<^verbatim>\<open>if self.config.X is None: self.configure(X=v)\<close>.
\<close>

definition set_if_none :: "Searcher \<Rightarrow> string \<Rightarrow> val \<Rightarrow> Searcher" where
  "set_if_none s key v = (if config s key = None then configure s [(key, Some v)] else s)"

text \<open>
  Lines 168--188: the three buckets of \<open>k\<close>; in each, the three parameters are tested
  and configured one after the other, in the order of the source.
\<close>

definition breadth_defaults :: "Searcher \<Rightarrow> int \<Rightarrow> Searcher" where
  "breadth_defaults s k =
     (if k \<le> 10 then
        (let s1 = set_if_none s ''ncells'' (IntV 1);
             s2 = set_if_none s1 ''centroid_score_threshold'' (FloatV (5 / 10));
             s3 = set_if_none s2 ''ndocs'' (IntV 256)
         in s3)
      else if k \<le> 100 then
        (let s1 = set_if_none s ''ncells'' (IntV 2);
             s2 = set_if_none s1 ''centroid_score_threshold'' (FloatV (45 / 100));
             s3 = set_if_none s2 ''ndocs'' (IntV 1024)
         in s3)
      else
        (let s1 = set_if_none s ''ncells'' (IntV 4);
             s2 = set_if_none s1 ''centroid_score_threshold'' (FloatV (4 / 10));
             s3 = set_if_none s2 ''ndocs'' (IntV (max (k * 4) 4096))
         in s3))"

text \<open>
  Lines 190--199. The result is the outcome of the call (an error of the backend, or the
  three returned sequences) together with the Searcher as the call leaves it: the
  configuration object is mutated before the backend runs and stays so if it raises.
  \<^verbatim>\<open>list(range(1, k + 1))\<close> is \<open>[1..k]\<close>.
\<close>

definition dense_search ::
  "('q, 'f, 'sc) env \<Rightarrow> Searcher \<Rightarrow> 'q list \<Rightarrow> int \<Rightarrow> 'f option \<Rightarrow> int list option
     \<Rightarrow> (error + (int list \<times> int list \<times> 'sc list)) \<times> Searcher" where
  "dense_search e s Q k filter_fn pids =
     (let s' = breadth_defaults s k;
          r = (if warp_engine s'
               then rank e (ranker s') (config s') Q (Some k) filter_fn pids
               else rank e (ranker s') (config s') Q None filter_fn pids)
      in case r of
           Inl err \<Rightarrow> (Inl err, s')
         | Inr (pids', scores) \<Rightarrow> (Inr (slice_to k pids', [1..k], slice_to k scores), s'))"

subsection \<open>\<^verbatim>\<open>Searcher.__init__\<close>\<close>

text \<open>
  The \<^verbatim>\<open>config\<close> argument: absent, a plain \<^verbatim>\<open>ColBERTConfig\<close>, or a
  \<^verbatim>\<open>WARPRunConfig\<close>.
\<close>

datatype config_arg = NoConfig | PlainConfig Configuration | WarpConfig WARPRunConfig

text \<open>
  Modelled from the spec: \<^verbatim>\<open>ColBERTConfig.from_existing\<close> (module
  \<^verbatim>\<open>warp.infra.config\<close>) is not under src/. The spec (4.1) gives its contract:
  ``given an ordered list of configuration sources (highest precedence first ...), produce
  one effective Configuration where, for each option, the first source in precedence order
  that has the option set wins; if no source sets it, the option remains unset''.
\<close>

fun from_existing :: "Configuration list \<Rightarrow> Configuration" where
  "from_existing [] = Map.empty"
| "from_existing (c # cs) = (\<lambda>opt. case c opt of Some v \<Rightarrow> Some v | None \<Rightarrow> from_existing cs opt)"

text \<open>\<^verbatim>\<open>os.path.join\<close> of the Python library (posixpath), for two components.\<close>

definition os_path_join :: "string \<Rightarrow> string \<Rightarrow> string" where
  "os_path_join a b =
     (if take 1 b = ''/'' then b
      else if a = [] \<or> last a = CHR ''/'' then a @ b
      else a @ ''/'' @ b)"

text \<open>
  Lines 40--43: a \<^verbatim>\<open>WARPRunConfig\<close> is kept as \<^verbatim>\<open>warp_config\<close> and
  replaced by its \<^verbatim>\<open>colbert()\<close>; otherwise \<^verbatim>\<open>warp_config\<close> stays
  \<^verbatim>\<open>None\<close>. An absent \<^verbatim>\<open>config\<close> sets no option.
\<close>

definition warp_config_of :: "config_arg \<Rightarrow> WARPRunConfig option" where
  "warp_config_of cfg_arg = (case cfg_arg of WarpConfig w \<Rightarrow> Some w | _ \<Rightarrow> None)"

definition caller_config_of :: "config_arg \<Rightarrow> Configuration" where
  "caller_config_of cfg_arg =
     (case cfg_arg of WarpConfig w \<Rightarrow> colbert w | PlainConfig c \<Rightarrow> c | NoConfig \<Rightarrow> Map.empty)"

text \<open>
  Lines 40--59: what construction has resolved before the checkpoint and the backend are
  built. \<open>r_config\<close> is \<^verbatim>\<open>self.config\<close> after line 59. The calls of
  \<^verbatim>\<open>print_memory_stats\<close> (lines 36--38 and 87) only print and are left out,
  and with them \<^verbatim>\<open>verbose\<close>.
\<close>

record resolved =
  r_warp_config :: "WARPRunConfig option"
  r_index :: string
  r_index_config :: Configuration
  r_checkpoint :: "val option"
  r_checkpoint_config :: Configuration
  r_merged :: Configuration
  r_collection :: val
  r_config :: Configuration

definition resolve_config ::
  "('q, 'f, 'sc) env \<Rightarrow> string \<Rightarrow> val option \<Rightarrow> val option \<Rightarrow> config_arg \<Rightarrow> val option
     \<Rightarrow> error + resolved" where
  "resolve_config e index_arg checkpoint_arg collection_arg cfg_arg index_root =
     (let warp_config = warp_config_of cfg_arg;
          caller_config = caller_config_of cfg_arg;
          initial_config = from_existing [caller_config, run_config e];
          default_index_root = initial_config ''index_root_'';
          root = (if truthy index_root then index_root else default_index_root)
      in case root of
           Some (StrV root_str) \<Rightarrow>
             (let index_path = os_path_join root_str index_arg in
              case load_from_index e index_path of
                Inl err \<Rightarrow> Inl err
              | Inr index_cfg \<Rightarrow>
                  (let ckpt = py_or checkpoint_arg (index_cfg ''checkpoint'') in
                   case load_from_checkpoint e ckpt of
                     Inl err \<Rightarrow> Inl err
                   | Inr ckpt_cfg \<Rightarrow>
                       (let merged = from_existing [ckpt_cfg, index_cfg, initial_config] in
                        case Collection_cast e (py_or collection_arg (merged ''collection'')) of
                          Inl err \<Rightarrow> Inl err
                        | Inr coll \<Rightarrow>
                            Inr \<lparr> r_warp_config = warp_config,
                                  r_index = index_path,
                                  r_index_config = index_cfg,
                                  r_checkpoint = ckpt,
                                  r_checkpoint_config = ckpt_cfg,
                                  r_merged = merged,
                                  r_collection = coll,
                                  r_config = Config_configure merged
                                    [(''checkpoint'', ckpt), (''collection'', Some coll)] \<rparr>)))
         | _ \<Rightarrow> Inl (TypeError ''expected str, bytes or os.PathLike object''))"

text \<open>
  Lines 61--85, in the order of the source: the checkpoint object is built (line 61), the
  GPU flag is computed (line 67), the checkpoint is moved to the GPU if it is set (line
  69), the memory-map check follows (lines 70--72), and then the backend is chosen and
  built (lines 74--85). Reading \<^verbatim>\<open>warp_config.t_prime\<close> when
  \<^verbatim>\<open>warp_config\<close> is \<^verbatim>\<open>None\<close> raises \<^verbatim>\<open>AttributeError\<close> (the
  model's error carries the name of the attribute); in both WARP branches
  \<^verbatim>\<open>t_prime\<close> is the first attribute read, and the arguments are read before the
  constructor is called. The baseline \<^verbatim>\<open>IndexScorer\<close> does not receive the
  configuration.
\<close>

definition select_engine :: "('q, 'f, 'sc) env \<Rightarrow> bool \<Rightarrow> resolved \<Rightarrow> error + Searcher" where
  "select_engine e warp_engine_arg r =
     (case Checkpoint_init e (r_checkpoint r) (r_config r) (r_warp_config r) of
        Inl err \<Rightarrow> Inl err
      | Inr _ \<Rightarrow>
     (case py_gt0 (r_config r ''total_visible_gpus'') of
        Inl err \<Rightarrow> Inl err
      | Inr use_gpu \<Rightarrow>
     (case (if use_gpu then Checkpoint_cuda e (r_checkpoint r) else Inr ()) of
        Inl err \<Rightarrow> Inl err
      | Inr _ \<Rightarrow>
          (let ckpt_obj = \<lparr> name = r_checkpoint r, on_cuda = use_gpu,
                            with_warp_config = (r_warp_config r \<noteq> None) \<rparr>;
               load_index_with_mmap = r_config r ''load_index_with_mmap''
           in if truthy load_index_with_mmap \<and> use_gpu
              then Inl (ValueError ''Memory-mapped index can only be used with CPU!'')
              else
                (let built = (\<lambda>rk cfg_given.
                       case ranker_init e rk cfg_given of
                         Inl err \<Rightarrow> Inl err
                       | Inr _ \<Rightarrow> Inr \<lparr> index = r_index r,
                                          index_config = r_index_config r,
                                          checkpoint_config = r_checkpoint_config r,
                                          config = r_config r,
                                          collection = r_collection r,
                                          checkpoint = ckpt_obj,
                                          warp_engine = warp_engine_arg,
                                          ranker = rk \<rparr>)
                 in if warp_engine_arg then
                      (case r_warp_config r of
                         None \<Rightarrow> Inl (AttributeError ''t_prime'')
                       | Some w \<Rightarrow>
                           if get_num_threads e = 1
                           then built (IndexScorerWARP (r_index r) use_gpu load_index_with_mmap
                                         (t_prime w) (bound w)) (Some (r_config r))
                           else built (ParallelIndexScorerWARP (r_index r) use_gpu load_index_with_mmap
                                         (t_prime w) (bound w) (fused_ext w)) (Some (r_config r)))
                    else built (IndexScorer (r_index r) use_gpu load_index_with_mmap) None)))))"

definition Searcher_init ::
  "('q, 'f, 'sc) env \<Rightarrow> string \<Rightarrow> val option \<Rightarrow> val option \<Rightarrow> config_arg \<Rightarrow> val option \<Rightarrow> bool
     \<Rightarrow> error + Searcher" where
  "Searcher_init e index_arg checkpoint_arg collection_arg cfg_arg index_root warp_engine_arg =
     (case resolve_config e index_arg checkpoint_arg collection_arg cfg_arg index_root of
        Inl err \<Rightarrow> Inl err
      | Inr r \<Rightarrow> select_engine e warp_engine_arg r)"

subsection \<open>\<^verbatim>\<open>Searcher.encode\<close> and \<^verbatim>\<open>Searcher.search\<close>\<close>

datatype text_arg = Text string | Texts "string list"

text \<open>
  Lines 92--101. The assignment to \<^verbatim>\<open>query_tokenizer.query_maxlen\<close> changes the
  encoder only; the encoder of the model receives that value as its first argument.
\<close>

definition encode :: "('q, 'f, 'sc) env \<Rightarrow> Searcher \<Rightarrow> text_arg \<Rightarrow> bool \<Rightarrow> error + 'q list" where
  "encode e s text full_length_search =
     (let queries = (case text of Texts l \<Rightarrow> l | Text t \<Rightarrow> [t]);
          bsize = (if length queries > 128 then Some 128 else None)
      in queryFromText e (config s ''query_maxlen'') queries bsize full_length_search)"

text \<open>
  Lines 103--115, without the tracker (an instrumentation hook whose default does nothing).
\<close>

definition search ::
  "('q, 'f, 'sc) env \<Rightarrow> Searcher \<Rightarrow> string \<Rightarrow> int \<Rightarrow> 'f option \<Rightarrow> bool \<Rightarrow> int list option
     \<Rightarrow> (error + (int list \<times> int list \<times> 'sc list)) \<times> Searcher" where
  "search e s text k filter_fn full_length_search pids =
     (case encode e s (Text text) full_length_search of
        Inl err \<Rightarrow> (Inl err, s)
      | Inr Q \<Rightarrow> dense_search e s Q k filter_fn pids)"

subsection \<open>\<^verbatim>\<open>Searcher.search_all\<close>\<close>

text \<open>
  Modelled from the spec: the classes \<^verbatim>\<open>Queries\<close> and \<^verbatim>\<open>Ranking\<close> (module
  \<^verbatim>\<open>warp.data\<close>) and \<^verbatim>\<open>Provenance\<close> (module \<^verbatim>\<open>warp.infra.provenance\<close>)
  are not under src/. The spec's QueryBatch is ``an ordered mapping from query identifier to
  query text'' with identifiers ``unique within a batch''; its Ranking is ``a mapping from
  query identifier to RankedResult, plus a Provenance record''; its Provenance captures
  ``the operation name, a snapshot of the Configuration used, the requested \<open>k\<close>, and
  identifying metadata of the input query batch''. A batch is given by its items in order
  and by the value of its \<^verbatim>\<open>provenance()\<close>; the fields of a Provenance are the
  four attributes that \<^verbatim>\<open>_search_all_Q\<close> assigns.
\<close>

record ('i, 'pv) Queries =
  items :: "('i \<times> string) list"
  batch_provenance :: 'pv

definition keys :: "('i, 'pv) Queries \<Rightarrow> 'i list" where
  "keys queries = map fst (items queries)"

definition values_of :: "('i, 'pv) Queries \<Rightarrow> string list" where
  "values_of queries = map snd (items queries)"

record 'pv Provenance =
  prov_source :: string
  prov_queries :: 'pv
  prov_config :: Configuration
  prov_k :: int

record ('i, 'sc, 'pv) Ranking =
  data :: "('i \<times> (int \<times> int \<times> 'sc) list) list"
  provenance :: "'pv Provenance"

text \<open>
  \<^verbatim>\<open>tqdm(iterable, disable=...)\<close> of the tqdm library yields the items of the
  iterable it wraps; \<^verbatim>\<open>disable\<close> only decides whether a progress bar is drawn,
  which is outside the model.
\<close>

definition tqdm :: "'a list \<Rightarrow> bool \<Rightarrow> 'a list" where
  "tqdm iterable disable = iterable"

definition enumerate :: "'a list \<Rightarrow> (nat \<times> 'a) list" where
  "enumerate xs = zip [0..<length xs] xs"

text \<open>
  A dictionary comprehension \<^verbatim>\<open>{k: v for k, v in pairs}\<close>: a key that comes again
  keeps its place and takes the later value.
\<close>

definition dict_of :: "('k \<times> 'v) list \<Rightarrow> ('k \<times> 'v) list" where
  "dict_of pairs = foldl (\<lambda>d (k, v). AList.update k v d) [] pairs"

text \<open>
  Modelled from the spec: \<^verbatim>\<open>ColBERTConfig.export\<close> is not under src/; the spec's
  Provenance holds ``a snapshot of the Configuration used''.
\<close>

definition Config_export :: "Configuration \<Rightarrow> Configuration" where
  "Config_export cfg = cfg"

text \<open>
  The list comprehension of lines 141--153: one \<^verbatim>\<open>dense_search\<close> per query, in
  order, on the row \<^verbatim>\<open>Q[query_idx : query_idx + 1]\<close> and the pool
  \<^verbatim>\<open>qid_to_pids[qid]\<close> (a missing key raises \<^verbatim>\<open>KeyError\<close>);
  \<^verbatim>\<open>list(zip(*result))\<close> pairs the three sequences up to the shortest. The first
  exception ends the loop.
\<close>

fun search_each ::
  "('q, 'f, 'sc) env \<Rightarrow> Searcher \<Rightarrow> 'q list \<Rightarrow> int \<Rightarrow> 'f option \<Rightarrow> ('i \<rightharpoonup> int list option)
     \<Rightarrow> (nat \<times> 'i) list \<Rightarrow> (error + (int \<times> int \<times> 'sc) list list) \<times> Searcher" where
  "search_each e s Q k filter_fn qid_to_pids [] = (Inr [], s)"
| "search_each e s Q k filter_fn qid_to_pids ((query_idx, qid) # rest) =
     (case qid_to_pids qid of
        None \<Rightarrow> (Inl KeyError, s)
      | Some pids \<Rightarrow>
          (case dense_search e s (take 1 (drop query_idx Q)) k filter_fn pids of
             (Inl err, s') \<Rightarrow> (Inl err, s')
           | (Inr (ps, rs, scs), s') \<Rightarrow>
               (case search_each e s' Q k filter_fn qid_to_pids rest of
                  (Inl err, s'') \<Rightarrow> (Inl err, s'')
                | (Inr rows, s'') \<Rightarrow> (Inr (zip ps (zip rs scs) # rows), s''))))"

text \<open>Lines 135--163.\<close>

definition search_all_Q ::
  "('q, 'f, 'sc) env \<Rightarrow> Searcher \<Rightarrow> ('i, 'pv) Queries \<Rightarrow> 'q list \<Rightarrow> int \<Rightarrow> 'f option
     \<Rightarrow> ('i \<rightharpoonup> int list option) option \<Rightarrow> bool
     \<Rightarrow> (error + ('i, 'sc, 'pv) Ranking) \<times> Searcher" where
  "search_all_Q e s queries Q k filter_fn qid_to_pids show_progress =
     (let qids = keys queries;
          qid_to_pids' = (case qid_to_pids of
                            None \<Rightarrow> map_of (map (\<lambda>qid. (qid, None)) qids)
                          | Some m \<Rightarrow> m)
      in case search_each e s Q k filter_fn qid_to_pids'
                (tqdm (enumerate qids) (\<not> show_progress)) of
           (Inl err, s') \<Rightarrow> (Inl err, s')
         | (Inr all_scored_pids, s') \<Rightarrow>
             (Inr \<lparr> data = dict_of (zip (keys queries) all_scored_pids),
                    provenance = \<lparr> prov_source = ''Searcher::search_all'',
                                   prov_queries = batch_provenance queries,
                                   prov_config = Config_export (config s'),
                                   prov_k = k \<rparr> \<rparr>, s'))"

text \<open>Lines 117--133; \<open>queries\<close> is the batch after \<^verbatim>\<open>Queries.cast\<close>.\<close>

definition search_all ::
  "('q, 'f, 'sc) env \<Rightarrow> Searcher \<Rightarrow> ('i, 'pv) Queries \<Rightarrow> int \<Rightarrow> 'f option \<Rightarrow> bool
     \<Rightarrow> ('i \<rightharpoonup> int list option) option \<Rightarrow> bool
     \<Rightarrow> (error + ('i, 'sc, 'pv) Ranking) \<times> Searcher" where
  "search_all e s queries k filter_fn full_length_search qid_to_pids show_progress =
     (case encode e s (Texts (values_of queries)) full_length_search of
        Inl err \<Rightarrow> (Inl err, s)
      | Inr Q \<Rightarrow> search_all_Q e s queries Q k filter_fn qid_to_pids show_progress)"

subsection \<open>Call sequences and example inputs\<close>

text \<open>
  A sequence of \<^verbatim>\<open>dense_search\<close> calls on one Searcher, each with its own
  arguments: the Searcher after the last call, whatever the calls returned or raised.
\<close>

fun dense_searches ::
  "('q, 'f, 'sc) env \<Rightarrow> Searcher \<Rightarrow> ('q list \<times> int \<times> 'f option \<times> int list option) list
     \<Rightarrow> Searcher" where
  "dense_searches e s [] = s"
| "dense_searches e s ((Q, k, filter_fn, pids) # calls) =
     dense_searches e (snd (dense_search e s Q k filter_fn pids)) calls"

text \<open>
  Example collaborators: the run configuration names the index root and sees no GPU, the
  index configuration names its checkpoint, the checkpoint configuration sets
  \<open>query_maxlen\<close>, the constructors and \<^verbatim>\<open>cuda()\<close> raise nothing, the encoder
  returns the texts themselves, and the backend always returns two ranked documents.
\<close>

definition example_env :: "(string, unit, rat) env" where
  "example_env =
     \<lparr> run_config = [''index_root_'' \<mapsto> StrV ''/experiments'', ''total_visible_gpus'' \<mapsto> IntV 0],
       load_from_index = (\<lambda>path. Inr [''checkpoint'' \<mapsto> StrV ''colbertv2.0'']),
       load_from_checkpoint = (\<lambda>ckpt. Inr [''query_maxlen'' \<mapsto> IntV 32]),
       Collection_cast = (\<lambda>obj. Inr (CollV [''first passage'', ''second passage''])),
       Checkpoint_init = (\<lambda>ckpt cfg warp_config. Inr ()),
       Checkpoint_cuda = (\<lambda>ckpt. Inr ()),
       ranker_init = (\<lambda>rk cfg. Inr ()),
       get_num_threads = 1,
       queryFromText = (\<lambda>maxlen texts bsize full. Inr texts),
       rank = (\<lambda>rk cfg Q k filter_fn pids. Inr ([7, 3], [9 / 10, 4 / 10])) \<rparr>"



text \<open>
  The same collaborators with a checkpoint that cannot be loaded, with a GPU that cannot be
  used, and with an index whose files the backend cannot read.
\<close>

definition broken_checkpoint_env :: "(string, unit, rat) env" where
  "broken_checkpoint_env = example_env\<lparr>Checkpoint_init :=
     (\<lambda>ckpt cfg warp_config. Inl (OSError ''checkpoint cannot be loaded''))\<rparr>"

definition broken_cuda_env :: "(string, unit, rat) env" where
  "broken_cuda_env = example_env\<lparr>Checkpoint_cuda :=
     (\<lambda>ckpt. Inl (RuntimeError ''CUDA error''))\<rparr>"

definition broken_index_env :: "(string, unit, rat) env" where
  "broken_index_env = example_env\<lparr>ranker_init :=
     (\<lambda>rk cfg. Inl (OSError ''index files cannot be read''))\<rparr>"

text \<open>The same collaborators with eight worker threads.\<close>

definition parallel_env :: "(string, unit, rat) env" where
  "parallel_env = example_env\<lparr>get_num_threads := 8\<rparr>"

text \<open>A caller configuration that asks for one GPU and a memory-mapped index.\<close>

definition gpu_mmap_config :: Configuration where
  "gpu_mmap_config = [''total_visible_gpus'' \<mapsto> IntV 1, ''load_index_with_mmap'' \<mapsto> BoolV True]"

definition example_searcher :: Searcher where
  "example_searcher =
     \<lparr> index = ''/experiments/lifestyle'',
       index_config = [''checkpoint'' \<mapsto> StrV ''colbertv2.0''],
       checkpoint_config = [''query_maxlen'' \<mapsto> IntV 32],
       config = [''total_visible_gpus'' \<mapsto> IntV 0],
       collection = CollV [''first passage'', ''second passage''],
       checkpoint = \<lparr> name = Some (StrV ''colbertv2.0''), on_cuda = False,
                      with_warp_config = False \<rparr>,
       warp_engine = False,
       ranker = IndexScorer ''/experiments/lifestyle'' False None \<rparr>"

definition example_warp_config :: WARPRunConfig where
  "example_warp_config =
     \<lparr> colbert = [''nbits'' \<mapsto> IntV 4],
       t_prime = Some (IntV 1000),
       bound = Some (IntV 128),
       fused_ext = Some (BoolV True) \<rparr>"

definition example_queries :: "(string, string) Queries" where
  "example_queries =
     \<lparr> items = [(''a'', ''cats''), (''b'', ''dogs'')], batch_provenance = ''queries.tsv'' \<rparr>"

section \<open>Properties\<close>

subsection \<open>Facts about \<open>configure\<close> and the adaptive defaults\<close>

lemma config_configure_one: "config (configure s [(key, v)]) = (config s)(key := v)"
  by (simp add: configure_def Config_configure_def)

lemma configure_fields:
  "index (configure s kw) = index s"
  "index_config (configure s kw) = index_config s"
  "checkpoint_config (configure s kw) = checkpoint_config s"
  "collection (configure s kw) = collection s"
  "checkpoint (configure s kw) = checkpoint s"
  "warp_engine (configure s kw) = warp_engine s"
  "ranker (configure s kw) = ranker s"
  by (simp_all add: configure_def)

lemma config_set_if_none:
  "config (set_if_none s key v) opt =
     (if opt = key \<and> config s key = None then Some v else config s opt)"
  by (simp add: set_if_none_def config_configure_one)

lemma set_if_none_fields:
  "index (set_if_none s key v) = index s"
  "index_config (set_if_none s key v) = index_config s"
  "checkpoint_config (set_if_none s key v) = checkpoint_config s"
  "collection (set_if_none s key v) = collection s"
  "checkpoint (set_if_none s key v) = checkpoint s"
  "warp_engine (set_if_none s key v) = warp_engine s"
  "ranker (set_if_none s key v) = ranker s"
  by (simp_all add: set_if_none_def configure_def)

lemma breadth_defaults_fields:
  "index (breadth_defaults s k) = index s"
  "index_config (breadth_defaults s k) = index_config s"
  "checkpoint_config (breadth_defaults s k) = checkpoint_config s"
  "collection (breadth_defaults s k) = collection s"
  "checkpoint (breadth_defaults s k) = checkpoint s"
  "warp_engine (breadth_defaults s k) = warp_engine s"
  "ranker (breadth_defaults s k) = ranker s"
  by (simp_all add: breadth_defaults_def set_if_none_fields)

text \<open>
  The configuration after lines 168--188, option by option: a set option keeps its value,
  an unset one of the three takes the value of the bucket of \<open>k\<close>.
\<close>

lemma config_breadth_defaults:
  "config (breadth_defaults s k) opt =
     (case config s opt of
        Some v \<Rightarrow> Some v
      | None \<Rightarrow>
          if opt = ''ncells'' then Some (IntV (if k \<le> 10 then 1 else if k \<le> 100 then 2 else 4))
          else if opt = ''centroid_score_threshold''
            then Some (FloatV (if k \<le> 10 then 5 / 10 else if k \<le> 100 then 45 / 100 else 4 / 10))
          else if opt = ''ndocs''
            then Some (IntV (if k \<le> 10 then 256 else if k \<le> 100 then 1024 else max (k * 4) 4096))
          else None)"
  by (simp add: breadth_defaults_def config_set_if_none split: option.splits)

lemma Searcher_eqI:
  fixes s t :: Searcher
  assumes "index s = index t" "index_config s = index_config t"
    "checkpoint_config s = checkpoint_config t" "config s = config t"
    "collection s = collection t" "checkpoint s = checkpoint t"
    "warp_engine s = warp_engine t" "ranker s = ranker t"
  shows "s = t"
  using assms by (cases s, cases t) simp

lemma breadth_defaults_frame:
  "breadth_defaults s k = s\<lparr>config := config (breadth_defaults s k)\<rparr>"
  by (rule Searcher_eqI) (simp_all add: breadth_defaults_fields)

text \<open>
  \<^verbatim>\<open>dense_search\<close> in one equation: the backend is called on the configuration
  that lines 168--188 leave, and the Searcher afterwards is the one they leave.
\<close>

lemma dense_search_unfold:
  "dense_search e s Q k filter_fn pids =
     (case rank e (ranker s) (config (breadth_defaults s k)) Q
             (if warp_engine s then Some k else None) filter_fn pids of
        Inl err \<Rightarrow> Inl err
      | Inr (ps, scs) \<Rightarrow> Inr (slice_to k ps, [1..k], slice_to k scs),
      breadth_defaults s k)"
  by (simp add: dense_search_def Let_def breadth_defaults_fields split: sum.splits prod.splits)

lemma snd_dense_search: "snd (dense_search e s Q k filter_fn pids) = breadth_defaults s k"
  by (simp add: dense_search_unfold)

lemma dense_searches_keeps_set:
  "config s opt = Some v \<Longrightarrow> config (dense_searches e s calls) opt = Some v"
proof (induction calls arbitrary: s)
  case Nil
  then show ?case by simp
next
  case (Cons c calls)
  obtain Q k filter_fn pids where c: "c = (Q, k, filter_fn, pids)"
    by (cases c) auto
  have "config (breadth_defaults s k) opt = Some v"
    using Cons.prems by (simp add: config_breadth_defaults)
  then show ?case
    using Cons.IH by (simp add: c snd_dense_search)
qed

lemma example_searcher_unset:
  "config example_searcher ''ncells'' = None"
  "config example_searcher ''centroid_score_threshold'' = None"
  "config example_searcher ''ndocs'' = None"
  by (simp_all add: example_searcher_def)

subsection \<open>The adaptive defaults of \<^verbatim>\<open>dense_search\<close>\<close>

text \<open>
  C4. When \<open>ncells\<close>, \<open>centroid_score_threshold\<close> and \<open>ndocs\<close> are all unset, a
  \<^verbatim>\<open>dense_search\<close> call with requested count \<open>k\<close> sets them to 1, 0.5, 256 if
  \<open>k \<le> 10\<close>, to 2, 0.45, 1024 if \<open>10 < k \<le> 100\<close>, and to 4, 0.4, \<open>max (4k) 4096\<close> if
  \<open>k > 100\<close>; the backend's \<open>rank\<close> is called on the configuration so filled, and the
  Searcher keeps it.
\<close>

theorem C4_adaptive_bucket_values:
  assumes "config s ''ncells'' = None"
    and "config s ''centroid_score_threshold'' = None"
    and "config s ''ndocs'' = None"
  shows "dense_search e s Q k filter_fn pids =
     (let cfg' =
        (if k \<le> 10 then
           (config s)(''ncells'' \<mapsto> IntV 1, ''centroid_score_threshold'' \<mapsto> FloatV (5 / 10),
                      ''ndocs'' \<mapsto> IntV 256)
         else if k \<le> 100 then
           (config s)(''ncells'' \<mapsto> IntV 2, ''centroid_score_threshold'' \<mapsto> FloatV (45 / 100),
                      ''ndocs'' \<mapsto> IntV 1024)
         else
           (config s)(''ncells'' \<mapsto> IntV 4, ''centroid_score_threshold'' \<mapsto> FloatV (4 / 10),
                      ''ndocs'' \<mapsto> IntV (max (4 * k) 4096)))
      in (case rank e (ranker s) cfg' Q (if warp_engine s then Some k else None) filter_fn pids of
            Inl err \<Rightarrow> Inl err
          | Inr (ps, scs) \<Rightarrow> Inr (slice_to k ps, [1..k], slice_to k scs),
          s\<lparr>config := cfg'\<rparr>))"
proof -
  let ?cfg = "if k \<le> 10 then
           (config s)(''ncells'' \<mapsto> IntV 1, ''centroid_score_threshold'' \<mapsto> FloatV (5 / 10),
                      ''ndocs'' \<mapsto> IntV 256)
         else if k \<le> 100 then
           (config s)(''ncells'' \<mapsto> IntV 2, ''centroid_score_threshold'' \<mapsto> FloatV (45 / 100),
                      ''ndocs'' \<mapsto> IntV 1024)
         else
           (config s)(''ncells'' \<mapsto> IntV 4, ''centroid_score_threshold'' \<mapsto> FloatV (4 / 10),
                      ''ndocs'' \<mapsto> IntV (max (4 * k) 4096))"
  have cfg: "config (breadth_defaults s k) = ?cfg"
    using assms
    by (intro ext) (simp add: config_breadth_defaults mult.commute split: option.splits)
  have "breadth_defaults s k = s\<lparr>config := ?cfg\<rparr>"
    by (subst breadth_defaults_frame) (simp only: cfg)
  then show ?thesis
    unfolding Let_def dense_search_unfold cfg by (simp only:)
qed

theorem C4_adaptive_bucket_values_witness:
  "config (snd (dense_search example_env example_searcher [''cats''] 5 None None)) ''ndocs''
     = Some (IntV 256)
   \<and> config (snd (dense_search example_env example_searcher [''cats''] 50 None None)) ''ncells''
     = Some (IntV 2)
   \<and> config (snd (dense_search example_env example_searcher [''cats''] 500 None None))
        ''centroid_score_threshold'' = Some (FloatV (4 / 10))
   \<and> config (snd (dense_search example_env example_searcher [''cats''] 2000 None None)) ''ndocs''
     = Some (IntV 8000)"
proof -
  note eq = C4_adaptive_bucket_values [OF example_searcher_unset, of example_env "[''cats'']" _ None None]
  show ?thesis
    by (simp add: eq [of 5] eq [of 50] eq [of 500] eq [of 2000] Let_def)
qed

text \<open>
  C1. On a Searcher whose three breadth parameters are unset, \<^verbatim>\<open>dense_search\<close>
  with \<open>k = 5\<close> followed by \<^verbatim>\<open>dense_search\<close> with \<open>k = 500\<close> leaves
  \<open>ncells = 1\<close>, \<open>centroid_score_threshold = 0.5\<close>, \<open>ndocs = 256\<close> after the first call
  and after the second; both calls hand the backend that configuration, and the values of
  the \<open>k = 500\<close> bucket (4, 0.4, 4096) do not appear.
\<close>

theorem C1_sticky_adaptive_defaults:
  assumes "config s ''ncells'' = None"
    and "config s ''centroid_score_threshold'' = None"
    and "config s ''ndocs'' = None"
  shows "let s1 = snd (dense_search e s Q1 5 f1 p1);
             s2 = snd (dense_search e s1 Q2 500 f2 p2)
         in config s1 ''ncells'' = Some (IntV 1)
          \<and> config s1 ''centroid_score_threshold'' = Some (FloatV (5 / 10))
          \<and> config s1 ''ndocs'' = Some (IntV 256)
          \<and> s2 = s1
          \<and> config s2 ''ncells'' \<noteq> Some (IntV 4)
          \<and> config s2 ''centroid_score_threshold'' \<noteq> Some (FloatV (4 / 10))
          \<and> config s2 ''ndocs'' \<noteq> Some (IntV (max (4 * 500) 4096))
          \<and> fst (dense_search e s Q1 5 f1 p1) =
              (case rank e (ranker s) (config s1) Q1 (if warp_engine s then Some 5 else None) f1 p1 of
                 Inl err \<Rightarrow> Inl err
               | Inr (ps, scs) \<Rightarrow> Inr (slice_to 5 ps, [1..5], slice_to 5 scs))
          \<and> fst (dense_search e s1 Q2 500 f2 p2) =
              (case rank e (ranker s) (config s1) Q2 (if warp_engine s then Some 500 else None) f2 p2 of
                 Inl err \<Rightarrow> Inl err
               | Inr (ps, scs) \<Rightarrow> Inr (slice_to 500 ps, [1..500], slice_to 500 scs))"
proof -
  let ?s1 = "breadth_defaults s 5"
  have v1: "config ?s1 ''ncells'' = Some (IntV 1)"
    "config ?s1 ''centroid_score_threshold'' = Some (FloatV (5 / 10))"
    "config ?s1 ''ndocs'' = Some (IntV 256)"
    using assms by (simp_all add: config_breadth_defaults)
  have same_cfg: "config (breadth_defaults ?s1 500) = config ?s1"
  proof
    fix opt
    show "config (breadth_defaults ?s1 500) opt = config ?s1 opt"
      using v1 by (cases "config ?s1 opt") (auto simp add: config_breadth_defaults [of ?s1])
  qed
  have same: "breadth_defaults ?s1 500 = ?s1"
    by (rule Searcher_eqI) (simp_all add: same_cfg breadth_defaults_fields)
  show ?thesis
    unfolding Let_def snd_dense_search same
    using v1 by (simp add: dense_search_unfold same breadth_defaults_fields)
qed

theorem C1_sticky_adaptive_defaults_witness:
  "config (snd (dense_search example_env
             (snd (dense_search example_env example_searcher [''cats''] 5 None None))
             [''dogs''] 500 None None)) ''ndocs'' = Some (IntV 256)
   \<and> config (snd (dense_search example_env
             (snd (dense_search example_env example_searcher [''cats''] 5 None None))
             [''dogs''] 500 None None)) ''ncells'' = Some (IntV 1)
   \<and> config (snd (dense_search example_env
             (snd (dense_search example_env example_searcher [''cats''] 5 None None))
             [''dogs''] 500 None None)) ''centroid_score_threshold'' = Some (FloatV (5 / 10))"
  using C1_sticky_adaptive_defaults [OF example_searcher_unset,
          of example_env "[''cats'']" None None "[''dogs'']" None None]
  by (simp add: Let_def)

text \<open>
  C5. An explicitly configured value is never replaced by the adaptive defaults: after
  \<^verbatim>\<open>configure(ndocs=2000)\<close>, any sequence of \<^verbatim>\<open>dense_search\<close> calls with any
  \<open>k\<close> leaves \<open>ndocs = 2000\<close>, and so for every option and value configured. One
  \<^verbatim>\<open>dense_search\<close> call changes no option that is set and no option other than the
  three breadth parameters, and no other field of the Searcher.
\<close>

theorem C5_explicit_values_kept:
  "config (dense_searches e (configure s [(''ndocs'', Some (IntV 2000))]) calls) ''ndocs''
     = Some (IntV 2000)
   \<and> (\<forall>opt v. config (dense_searches e (configure s [(opt, Some v)]) calls) opt = Some v)
   \<and> (\<forall>opt. config s opt \<noteq> None \<or> opt \<notin> {''ncells'', ''centroid_score_threshold'', ''ndocs''}
          \<longrightarrow> config (snd (dense_search e s Q k filter_fn pids)) opt = config s opt)
   \<and> snd (dense_search e s Q k filter_fn pids)
        = s\<lparr>config := config (snd (dense_search e s Q k filter_fn pids))\<rparr>"
proof (intro conjI allI impI)
  show "config (dense_searches e (configure s [(''ndocs'', Some (IntV 2000))]) calls) ''ndocs''
          = Some (IntV 2000)"
    by (rule dense_searches_keeps_set) (simp add: config_configure_one)
next
  fix opt v
  show "config (dense_searches e (configure s [(opt, Some v)]) calls) opt = Some v"
    by (rule dense_searches_keeps_set) (simp add: config_configure_one)
next
  fix opt
  assume "config s opt \<noteq> None \<or> opt \<notin> {''ncells'', ''centroid_score_threshold'', ''ndocs''}"
  then show "config (snd (dense_search e s Q k filter_fn pids)) opt = config s opt"
    unfolding snd_dense_search config_breadth_defaults
    by (cases "config s opt") auto
next
  show "snd (dense_search e s Q k filter_fn pids)
          = s\<lparr>config := config (snd (dense_search e s Q k filter_fn pids))\<rparr>"
    unfolding snd_dense_search by (rule breadth_defaults_frame)
qed

theorem C5_explicit_values_kept_witness:
  "config (dense_searches example_env (configure example_searcher [(''ndocs'', Some (IntV 2000))])
             [([''cats''], 5, None, None), ([''dogs''], 500, None, None), ([''cats''], 50, None, None)])
          ''ndocs'' = Some (IntV 2000)
   \<and> config example_searcher ''total_visible_gpus'' \<noteq> None
   \<and> config (snd (dense_search example_env example_searcher [''cats''] 500 None None))
          ''total_visible_gpus'' = Some (IntV 0)"
proof -
  note inst = C5_explicit_values_kept [of example_env example_searcher
      "[([''cats''], 5, None, None), ([''dogs''], 500, None, None), ([''cats''], 50, None, None)]"
      "[''cats'']" 500 None None]
  have isset: "config example_searcher ''total_visible_gpus'' = Some (IntV 0)"
    by (simp add: example_searcher_def)
  from inst have "config (snd (dense_search example_env example_searcher [''cats''] 500 None None))
          ''total_visible_gpus'' = config example_searcher ''total_visible_gpus''"
    using isset by (metis option.distinct(1))
  with inst isset show ?thesis by simp
qed

subsection \<open>What \<^verbatim>\<open>dense_search\<close> returns\<close>

lemma length_slice_to: "0 \<le> k \<Longrightarrow> length (slice_to k xs) = min (nat k) (length xs)"
  by (simp add: slice_to_def)

lemma slice_to_take: "0 \<le> k \<Longrightarrow> slice_to k xs = take (nat k) xs"
  by (simp add: slice_to_def)

lemma length_ranks: "length [1..k] = nat k"
  by simp

text \<open>
  For \<open>0 \<le> k\<close> the ids and the scores returned are the first \<open>k\<close> of the backend's,
  or all of them when there are fewer; the ranks are \<open>k\<close> numbers in either case.
\<close>

lemma dense_search_returns:
  assumes "0 \<le> k"
    and "rank e (ranker s) (config (breadth_defaults s k)) Q
           (if warp_engine s then Some k else None) filter_fn pids = Inr (ps, scs)"
  shows "fst (dense_search e s Q k filter_fn pids) = Inr (take (nat k) ps, [1..k], take (nat k) scs)"
  using assms by (simp add: dense_search_unfold slice_to_take)

text \<open>
  C3. The claim is that the three returned sequences are the first \<open>k\<close> entries of the
  backend's, of equal length at most \<open>k\<close>, never padded. With \<open>k = 3\<close> and a backend that
  returns two documents, the ids and the scores have two entries and the ranks three:
  the ranks are \<open>[1..k]\<close> whatever the backend returned.
\<close>

theorem C3_ranks_longer_than_ids:
  "fst (dense_search example_env example_searcher [''cats''] 3 None None)
     = Inr ([7, 3], [1, 2, 3], [9 / 10, 4 / 10])"
  by (simp add: dense_search_unfold example_env_def slice_to_def upto.simps)

subsection \<open>Facts about construction\<close>

lemma resolve_config_InrD:
  assumes "resolve_config e index_arg checkpoint_arg collection_arg cfg_arg index_root = Inr r"
  shows "r_warp_config r = warp_config_of cfg_arg"
    and "load_from_index e (r_index r) = Inr (r_index_config r)"
    and "load_from_checkpoint e (r_checkpoint r) = Inr (r_checkpoint_config r)"
    and "r_checkpoint r = py_or checkpoint_arg (r_index_config r ''checkpoint'')"
    and "Collection_cast e (py_or collection_arg (r_merged r ''collection'')) = Inr (r_collection r)"
    and "r_merged r = from_existing [r_checkpoint_config r, r_index_config r,
                        from_existing [caller_config_of cfg_arg, run_config e]]"
    and "r_config r = Config_configure (r_merged r)
                        [(''checkpoint'', r_checkpoint r), (''collection'', Some (r_collection r))]"
  using assms
  by (auto simp add: resolve_config_def Let_def
           split: option.splits val.splits sum.splits)

lemma select_engine_InrD:
  assumes "select_engine e warp r = Inr s"
  shows "index s = r_index r"
    and "index_config s = r_index_config r"
    and "checkpoint_config s = r_checkpoint_config r"
    and "config s = r_config r"
    and "collection s = r_collection r"
    and "name (checkpoint s) = r_checkpoint r"
    and "py_gt0 (r_config r ''total_visible_gpus'') = Inr (on_cuda (checkpoint s))"
    and "warp_engine s = warp"
    and "ranker s =
          (if warp then
             (case r_warp_config r of
                None \<Rightarrow> ranker s
              | Some w \<Rightarrow>
                  if get_num_threads e = 1
                  then IndexScorerWARP (r_index r) (on_cuda (checkpoint s))
                         (r_config r ''load_index_with_mmap'') (t_prime w) (bound w)
                  else ParallelIndexScorerWARP (r_index r) (on_cuda (checkpoint s))
                         (r_config r ''load_index_with_mmap'') (t_prime w) (bound w) (fused_ext w))
           else IndexScorer (r_index r) (on_cuda (checkpoint s)) (r_config r ''load_index_with_mmap''))"
    and "warp \<Longrightarrow> r_warp_config r \<noteq> None"
  using assms
  by (auto simp add: select_engine_def Let_def split: sum.splits option.splits if_splits)

text \<open>
  Lines 61--85 when \<^verbatim>\<open>Checkpoint(...)\<close> and \<^verbatim>\<open>cuda()\<close> raise nothing and
  \<open>total_visible_gpus\<close> is a number: the memory-map error, the attribute error, what the
  backend's constructor raises, or the Searcher.
\<close>

lemma select_engine_cases:
  assumes "Checkpoint_init e (r_checkpoint r) (r_config r) (r_warp_config r) = Inr ()"
    and "py_gt0 (r_config r ''total_visible_gpus'') = Inr use_gpu"
    and "use_gpu \<longrightarrow> Checkpoint_cuda e (r_checkpoint r) = Inr ()"
  shows "select_engine e warp r =
     (if truthy (r_config r ''load_index_with_mmap'') \<and> use_gpu
      then Inl (ValueError ''Memory-mapped index can only be used with CPU!'')
      else if warp \<and> r_warp_config r = None then Inl (AttributeError ''t_prime'')
      else
        (case ranker_init e
                (if warp then
                   (if get_num_threads e = 1
                    then IndexScorerWARP (r_index r) use_gpu (r_config r ''load_index_with_mmap'')
                           (t_prime (the (r_warp_config r))) (bound (the (r_warp_config r)))
                    else ParallelIndexScorerWARP (r_index r) use_gpu
                           (r_config r ''load_index_with_mmap'')
                           (t_prime (the (r_warp_config r))) (bound (the (r_warp_config r)))
                           (fused_ext (the (r_warp_config r))))
                 else IndexScorer (r_index r) use_gpu (r_config r ''load_index_with_mmap''))
                (if warp then Some (r_config r) else None) of
           Inl err \<Rightarrow> Inl err
         | Inr _ \<Rightarrow>
             Inr \<lparr> index = r_index r, index_config = r_index_config r,
                   checkpoint_config = r_checkpoint_config r, config = r_config r,
                   collection = r_collection r,
                   checkpoint = \<lparr> name = r_checkpoint r, on_cuda = use_gpu,
                                  with_warp_config = (r_warp_config r \<noteq> None) \<rparr>,
                   warp_engine = warp,
                   ranker =
                     (if warp then
                        (if get_num_threads e = 1
                         then IndexScorerWARP (r_index r) use_gpu (r_config r ''load_index_with_mmap'')
                                (t_prime (the (r_warp_config r))) (bound (the (r_warp_config r)))
                         else ParallelIndexScorerWARP (r_index r) use_gpu
                                (r_config r ''load_index_with_mmap'')
                                (t_prime (the (r_warp_config r))) (bound (the (r_warp_config r)))
                                (fused_ext (the (r_warp_config r))))
                      else IndexScorer (r_index r) use_gpu (r_config r ''load_index_with_mmap'')) \<rparr>))"
proof (cases use_gpu)
  case True
  with assms(3) have "Checkpoint_cuda e (r_checkpoint r) = Inr ()" by simp
  then show ?thesis
    using assms(1,2) True
    by (auto simp add: select_engine_def Let_def split: option.splits sum.splits)
next
  case False
  then show ?thesis
    using assms(1,2)
    by (auto simp add: select_engine_def Let_def split: option.splits sum.splits)
qed

lemma warp_config_of_None: "(warp_config_of cfg_arg = None) = (\<forall>w. cfg_arg \<noteq> WarpConfig w)"
  by (cases cfg_arg) (simp_all add: warp_config_of_def)


lemma Searcher_init_resolved:
  "resolve_config e index_arg checkpoint_arg collection_arg cfg_arg index_root = Inr r
     \<Longrightarrow> Searcher_init e index_arg checkpoint_arg collection_arg cfg_arg index_root warp
           = select_engine e warp r"
  by (simp add: Searcher_init_def)

lemma Searcher_init_InrD:
  assumes "Searcher_init e index_arg checkpoint_arg collection_arg cfg_arg index_root warp = Inr s"
  obtains r where
    "resolve_config e index_arg checkpoint_arg collection_arg cfg_arg index_root = Inr r"
    "select_engine e warp r = Inr s"
  using assms by (auto simp add: Searcher_init_def split: sum.splits)

text \<open>The definitions that evaluate a construction on concrete arguments.\<close>

lemmas construction_defs =
  Searcher_init_def resolve_config_def select_engine_def Let_def py_or_def
  Config_configure_def os_path_join_def caller_config_of_def warp_config_of_def

lemma example_env_fields:
  "get_num_threads example_env = 1"
  "queryFromText example_env maxlen texts bsize full = Inr texts"
  "rank example_env rk cfg Q kk filter_fn pids = Inr ([7, 3], [9 / 10, 4 / 10])"
  by (simp_all add: example_env_def)

text \<open>
  Construction passes on what \<^verbatim>\<open>Checkpoint(...)\<close>, \<^verbatim>\<open>cuda()\<close> and the
  backend's constructor raise.
\<close>

lemma broken_checkpoint_example:
  "Searcher_init broken_checkpoint_env ''lifestyle'' None None NoConfig None False
     = Inl (OSError ''checkpoint cannot be loaded'')"
  by (simp add: construction_defs broken_checkpoint_env_def example_env_def)

lemma broken_cuda_example:
  "Searcher_init broken_cuda_env ''lifestyle'' None None (PlainConfig gpu_mmap_config) None True
     = Inl (RuntimeError ''CUDA error'')"
  by (simp add: construction_defs broken_cuda_env_def example_env_def gpu_mmap_config_def)

lemma broken_index_example:
  "Searcher_init broken_index_env ''lifestyle'' None None NoConfig None False
     = Inl (OSError ''index files cannot be read'')"
  by (simp add: construction_defs broken_index_env_def example_env_def)

subsection \<open>Facts about the batch loop\<close>

lemma dense_search_fields:
  "ranker (snd (dense_search e s Q k filter_fn pids)) = ranker s"
  "warp_engine (snd (dense_search e s Q k filter_fn pids)) = warp_engine s"
  by (simp_all add: snd_dense_search breadth_defaults_fields)

lemma isl_dense_search:
  "isl (fst (dense_search e s Q k filter_fn pids)) =
     isl (rank e (ranker s) (config (breadth_defaults s k)) Q
            (if warp_engine s then Some k else None) filter_fn pids)"
proof (cases "rank e (ranker s) (config (breadth_defaults s k)) Q
            (if warp_engine s then Some k else None) filter_fn pids")
  case (Inl err)
  then show ?thesis by (simp only: dense_search_unfold) simp
next
  case (Inr res)
  then show ?thesis by (simp only: dense_search_unfold) (simp split: prod.splits)
qed

lemma search_each_fields:
  "ranker (snd (search_each e s Q k filter_fn m pairs)) = ranker s
   \<and> warp_engine (snd (search_each e s Q k filter_fn m pairs)) = warp_engine s"
proof (induction pairs arbitrary: s)
  case Nil
  show ?case by simp
next
  case (Cons p pairs)
  obtain i qid where p: "p = (i, qid)" by (cases p)
  show ?case
  proof (cases "m qid")
    case None
    then show ?thesis by (simp add: p)
  next
    case (Some pids)
    obtain r1 s1 where d: "dense_search e s (take 1 (drop i Q)) k filter_fn pids = (r1, s1)"
      by (cases "dense_search e s (take 1 (drop i Q)) k filter_fn pids")
    have s1: "ranker s1 = ranker s" "warp_engine s1 = warp_engine s"
      using dense_search_fields [of e s "take 1 (drop i Q)" k filter_fn pids]
      unfolding d by simp_all
    show ?thesis
    proof (cases r1)
      case (Inl err)
      then show ?thesis
        using s1 d by (simp add: p Some)
    next
      case (Inr res)
      obtain ps rs scs where res: "res = (ps, rs, scs)" by (cases res)
      obtain r2 s2 where l: "search_each e s1 Q k filter_fn m pairs = (r2, s2)"
        by (cases "search_each e s1 Q k filter_fn m pairs")
      have s2: "ranker s2 = ranker s1" "warp_engine s2 = warp_engine s1"
        using Cons.IH [of s1] unfolding l by simp_all
      show ?thesis
        using s1 s2 d by (cases r2) (simp_all add: p Some Inr res l)
    qed
  qed
qed

lemma search_each_length:
  "search_each e s Q k filter_fn m pairs = (Inr rows, s') \<Longrightarrow> length rows = length pairs"
proof (induction pairs arbitrary: s rows s')
  case Nil
  then show ?case by simp
next
  case (Cons p pairs)
  obtain i qid where p: "p = (i, qid)" by (cases p)
  from Cons.prems show ?case
    by (auto simp add: p split: option.splits prod.splits sum.splits dest: Cons.IH)
qed

text \<open>
  The loop raises nothing when every query has an entry in \<^verbatim>\<open>qid_to_pids\<close> and the
  backend's \<^verbatim>\<open>rank\<close> returns.
\<close>

lemma search_each_returns:
  assumes "\<forall>rk cfg q kk ff p. \<not> isl (rank e rk cfg q kk ff p)"
    and "snd ` set pairs \<subseteq> dom m"
  shows "\<not> isl (fst (search_each e s Q k filter_fn m pairs))"
  using assms(2)
proof (induction pairs arbitrary: s)
  case Nil
  show ?case by simp
next
  case (Cons p pairs)
  obtain i qid where p: "p = (i, qid)" by (cases p)
  from Cons.prems obtain pids where pids: "m qid = Some pids"
    by (auto simp add: p)
  obtain r1 s1 where d: "dense_search e s (take 1 (drop i Q)) k filter_fn pids = (r1, s1)"
    by (cases "dense_search e s (take 1 (drop i Q)) k filter_fn pids")
  have "\<not> isl (fst (dense_search e s (take 1 (drop i Q)) k filter_fn pids))"
    unfolding isl_dense_search using assms(1) by blast
  then obtain ps rs scs where r1: "r1 = Inr (ps, rs, scs)"
    unfolding d by (cases r1) auto
  obtain r2 s2 where l: "search_each e s1 Q k filter_fn m pairs = (r2, s2)"
    by (cases "search_each e s1 Q k filter_fn m pairs")
  have "\<not> isl (fst (search_each e s1 Q k filter_fn m pairs))"
    using Cons.prems by (intro Cons.IH) (auto simp add: p)
  then obtain rows where r2: "r2 = Inr rows"
    unfolding l by (cases r2) auto
  show ?case
    using d l by (simp add: p pids r1 r2)
qed

lemma update_new_key: "k \<notin> fst ` set al \<Longrightarrow> AList.update k v al = al @ [(k, v)]"
  by (induction al) auto

lemma dict_of_fold:
  "distinct (map fst acc @ map fst ps)
     \<Longrightarrow> foldl (\<lambda>d (k, v). AList.update k v d) acc ps = acc @ ps"
proof (induction ps arbitrary: acc)
  case Nil
  show ?case by simp
next
  case (Cons p ps)
  obtain k v where p: "p = (k, v)" by (cases p)
  have new: "k \<notin> fst ` set acc"
    using Cons.prems by (auto simp add: p)
  have "distinct (map fst (acc @ [(k, v)]) @ map fst ps)"
    using Cons.prems by (simp add: p)
  from Cons.IH [OF this] show ?case
    by (simp add: p update_new_key [OF new])
qed

text \<open>A dictionary built from pairs with distinct keys holds exactly those pairs, in order.\<close>

lemma dict_of_distinct: "distinct (map fst ps) \<Longrightarrow> dict_of ps = ps"
  using dict_of_fold [of "[]" ps] by (simp add: dict_of_def)

lemma length_enumerate: "length (enumerate xs) = length xs"
  by (simp add: enumerate_def)

lemma snd_enumerate: "map snd (enumerate xs) = xs"
  by (simp add: enumerate_def)

lemma search_all_Q_fields:
  "ranker (snd (search_all_Q e s queries Q k filter_fn qid_to_pids show_progress)) = ranker s"
proof -
  let ?m = "case qid_to_pids of
              None \<Rightarrow> map_of (map (\<lambda>qid. (qid, None)) (keys queries))
            | Some m \<Rightarrow> m"
  let ?pairs = "tqdm (enumerate (keys queries)) (\<not> show_progress)"
  obtain r s' where l: "search_each e s Q k filter_fn ?m ?pairs = (r, s')"
    by (cases "search_each e s Q k filter_fn ?m ?pairs")
  have "ranker s' = ranker s"
    using search_each_fields [of e s Q k filter_fn ?m ?pairs] unfolding l by simp
  then show ?thesis
    unfolding search_all_Q_def Let_def l by (cases r) simp_all
qed

lemma search_all_fields:
  "ranker (snd (search_all e s queries k filter_fn full qid_to_pids show_progress)) = ranker s"
  by (simp add: search_all_def search_all_Q_fields split: sum.splits)

lemma search_fields:
  "ranker (snd (search e s text k filter_fn full pids)) = ranker s"
  by (simp add: search_def dense_search_fields split: sum.splits)

subsection \<open>Construction: the memory-map check and the choice of the backend\<close>

text \<open>
  C2, as stated, promises that construction succeeds for every combination other than GPU
  with a memory-mapped index. It does not when the WARP engine is requested without a
  \<^verbatim>\<open>WARPRunConfig\<close>: no GPU, no memory map, and construction raises
  \<^verbatim>\<open>AttributeError\<close>.
\<close>

theorem C2_warp_engine_without_warp_config_fails:
  "\<not> isl (resolve_config example_env ''lifestyle'' None None NoConfig None)
   \<and> r_config (projr (resolve_config example_env ''lifestyle'' None None NoConfig None))
        ''total_visible_gpus'' = Some (IntV 0)
   \<and> r_config (projr (resolve_config example_env ''lifestyle'' None None NoConfig None))
        ''load_index_with_mmap'' = None
   \<and> Searcher_init example_env ''lifestyle'' None None NoConfig None True
        = Inl (AttributeError ''t_prime'')"
  by (simp add: construction_defs example_env_def)

text \<open>
  C2, amended. When the configuration sources resolve (lines 40--59 raise nothing),
  \<^verbatim>\<open>Checkpoint(...)\<close> raises nothing, \<open>total_visible_gpus\<close> is a number,
  \<^verbatim>\<open>cuda()\<close> raises nothing when a GPU is visible, and the backend's constructor
  raises nothing, construction raises the memory-map \<^verbatim>\<open>ValueError\<close> (the spec's
  InvalidConfigurationError) if and only if the resolved configuration has
  \<open>total_visible_gpus > 0\<close> and a true \<open>load_index_with_mmap\<close>; in every other case in
  which the WARP engine is not requested or the caller's config is a
  \<^verbatim>\<open>WARPRunConfig\<close>, construction succeeds, whatever the engine and the number of
  threads.
\<close>

theorem C2_memory_map_check:
  assumes "resolve_config e index_arg checkpoint_arg collection_arg cfg_arg index_root = Inr r"
    and "Checkpoint_init e (r_checkpoint r) (r_config r) (r_warp_config r) = Inr ()"
    and "py_gt0 (r_config r ''total_visible_gpus'') = Inr use_gpu"
    and "use_gpu \<longrightarrow> Checkpoint_cuda e (r_checkpoint r) = Inr ()"
    and "\<forall>rk cfg. ranker_init e rk cfg = Inr ()"
  shows "((\<exists>msg. Searcher_init e index_arg checkpoint_arg collection_arg cfg_arg index_root warp
                   = Inl (ValueError msg))
            \<longleftrightarrow> (use_gpu \<and> truthy (r_config r ''load_index_with_mmap'')))
       \<and> (use_gpu \<and> truthy (r_config r ''load_index_with_mmap'')
            \<longrightarrow> Searcher_init e index_arg checkpoint_arg collection_arg cfg_arg index_root warp
                  = Inl (ValueError ''Memory-mapped index can only be used with CPU!''))
       \<and> (\<not> (use_gpu \<and> truthy (r_config r ''load_index_with_mmap''))
            \<and> (warp \<longrightarrow> warp_config_of cfg_arg \<noteq> None)
            \<longrightarrow> (\<exists>s. Searcher_init e index_arg checkpoint_arg collection_arg cfg_arg index_root warp
                       = Inr s))"
proof -
  have w: "r_warp_config r = warp_config_of cfg_arg"
    using assms(1) by (rule resolve_config_InrD)
  have built: "ranker_init e rk cfg = Inr ()" for rk cfg
    using assms(5) by blast
  show ?thesis
    unfolding Searcher_init_resolved [OF assms(1)] select_engine_cases [OF assms(2,3,4)] w built
    by auto
qed

theorem C2_memory_map_check_witness:
  "Searcher_init example_env ''lifestyle'' None None (PlainConfig gpu_mmap_config) None False
     = Inl (ValueError ''Memory-mapped index can only be used with CPU!'')
   \<and> (\<exists>s. Searcher_init example_env ''lifestyle'' None None (WarpConfig example_warp_config) None True
            = Inr s)"
proof -
  define r where "r = projr (resolve_config example_env ''lifestyle'' None None
                               (PlainConfig gpu_mmap_config) None)"
  have r: "resolve_config example_env ''lifestyle'' None None (PlainConfig gpu_mmap_config) None = Inr r"
    unfolding r_def by (simp add: construction_defs example_env_def gpu_mmap_config_def)
  have rv: "r_config r ''total_visible_gpus'' = Some (IntV 1)"
    "r_config r ''load_index_with_mmap'' = Some (BoolV True)"
    unfolding r_def by (simp_all add: construction_defs example_env_def gpu_mmap_config_def)
  have gpu: "py_gt0 (r_config r ''total_visible_gpus'') = Inr True"
    by (simp add: rv)
  define r' where "r' = projr (resolve_config example_env ''lifestyle'' None None
                                 (WarpConfig example_warp_config) None)"
  have r': "resolve_config example_env ''lifestyle'' None None (WarpConfig example_warp_config) None
              = Inr r'"
    unfolding r'_def by (simp add: construction_defs example_env_def example_warp_config_def)
  have rv': "r_config r' ''total_visible_gpus'' = Some (IntV 0)"
    "r_config r' ''load_index_with_mmap'' = None"
    unfolding r'_def by (simp_all add: construction_defs example_env_def example_warp_config_def)
  have cpu: "py_gt0 (r_config r' ''total_visible_gpus'') = Inr False"
    by (simp add: rv')
  have coll: "Checkpoint_init example_env a b c = Inr ()"
    "Checkpoint_cuda example_env a = Inr ()"
    "\<forall>rk cfg. ranker_init example_env rk cfg = Inr ()" for a b c
    by (simp_all add: example_env_def)
  have cuda: "u \<longrightarrow> Checkpoint_cuda example_env a = Inr ()" for u a
    by (simp add: coll)
  have "warp_config_of (WarpConfig example_warp_config) \<noteq> None"
    by (simp add: warp_config_of_def)
  then show ?thesis
    using C2_memory_map_check [OF r coll(1) gpu cuda coll(3), of False]
      C2_memory_map_check [OF r' coll(1) cpu cuda coll(3), of True]
    by (simp add: rv rv')
qed

text \<open>
  C10, as stated, says that construction with \<open>warp_engine=True\<close> and a config that is not
  a \<^verbatim>\<open>WARPRunConfig\<close> fails with an attribute error and not with the memory-map
  error. When that config asks for a GPU and a memory-mapped index, the memory-map check of
  line 71 comes first and raises \<^verbatim>\<open>ValueError\<close>.
\<close>

theorem C10_memory_map_error_comes_first:
  "warp_config_of (PlainConfig gpu_mmap_config) = None
   \<and> Searcher_init example_env ''lifestyle'' None None (PlainConfig gpu_mmap_config) None True
     = Inl (ValueError ''Memory-mapped index can only be used with CPU!'')"
  by (simp add: construction_defs example_env_def gpu_mmap_config_def)

text \<open>
  C10, amended. When construction is called with \<open>warp_engine=True\<close> and a config that is
  not a \<^verbatim>\<open>WARPRunConfig\<close>, and nothing before line 74 raises (the configuration
  sources resolve, \<^verbatim>\<open>Checkpoint(...)\<close> raises nothing, \<open>total_visible_gpus\<close> is a
  number, \<^verbatim>\<open>cuda()\<close> raises nothing when a GPU is visible, and the resolved
  configuration does not ask for both a GPU and a memory-mapped index), then
  \<^verbatim>\<open>warp_config\<close> is \<^verbatim>\<open>None\<close> and construction raises
  \<^verbatim>\<open>AttributeError\<close> on reading \<^verbatim>\<open>t_prime\<close>, before any backend is
  built, and not the memory-map \<^verbatim>\<open>ValueError\<close>; nothing in the constructor checks
  for it beforehand.
\<close>

theorem C10_warp_engine_needs_warp_config:
  assumes "resolve_config e index_arg checkpoint_arg collection_arg cfg_arg index_root = Inr r"
    and "Checkpoint_init e (r_checkpoint r) (r_config r) (r_warp_config r) = Inr ()"
    and "py_gt0 (r_config r ''total_visible_gpus'') = Inr use_gpu"
    and "use_gpu \<longrightarrow> Checkpoint_cuda e (r_checkpoint r) = Inr ()"
    and "\<not> (use_gpu \<and> truthy (r_config r ''load_index_with_mmap''))"
    and "\<forall>w. cfg_arg \<noteq> WarpConfig w"
  shows "r_warp_config r = None
       \<and> Searcher_init e index_arg checkpoint_arg collection_arg cfg_arg index_root True
           = Inl (AttributeError ''t_prime'')"
proof -
  have w: "r_warp_config r = None"
    using resolve_config_InrD(1) [OF assms(1)] assms(6) by (simp add: warp_config_of_None)
  show ?thesis
    unfolding Searcher_init_resolved [OF assms(1)] select_engine_cases [OF assms(2,3,4)]
    using assms(5) w by auto
qed

theorem C10_warp_engine_needs_warp_config_witness:
  "Searcher_init broken_index_env ''lifestyle'' None None
     (PlainConfig [''ndocs'' \<mapsto> IntV 2000]) None True = Inl (AttributeError ''t_prime'')"
proof -
  let ?cfg = "PlainConfig [''ndocs'' \<mapsto> IntV 2000]"
  define r where "r = projr (resolve_config broken_index_env ''lifestyle'' None None ?cfg None)"
  have r: "resolve_config broken_index_env ''lifestyle'' None None ?cfg None = Inr r"
    unfolding r_def by (simp add: construction_defs broken_index_env_def example_env_def)
  have rv: "r_config r ''total_visible_gpus'' = Some (IntV 0)"
    "r_config r ''load_index_with_mmap'' = None"
    unfolding r_def by (simp_all add: construction_defs broken_index_env_def example_env_def)
  have ckpt: "Checkpoint_init broken_index_env (r_checkpoint r) (r_config r) (r_warp_config r) = Inr ()"
    by (simp add: broken_index_env_def example_env_def)
  have cpu: "py_gt0 (r_config r ''total_visible_gpus'') = Inr False"
    by (simp add: rv)
  have cuda: "False \<longrightarrow> Checkpoint_cuda broken_index_env (r_checkpoint r) = Inr ()"
    by simp
  have no_mmap: "\<not> (False \<and> truthy (r_config r ''load_index_with_mmap''))"
    by simp
  have plain: "\<forall>w. ?cfg \<noteq> WarpConfig w"
    by simp
  show ?thesis
    using C10_warp_engine_needs_warp_config [OF r ckpt cpu cuda no_mmap plain] by simp
qed

subsection \<open>Construction: the effective configuration\<close>




subsection \<open>Construction: the backend chosen\<close>

text \<open>
  C7. A constructed Searcher holds one backend: with the WARP engine requested and more
  than one thread, \<^verbatim>\<open>ParallelIndexScorerWARP\<close> with \<open>t_prime\<close>, \<open>bound\<close> and the
  fused-decompression flag of the \<^verbatim>\<open>WARPRunConfig\<close>; with the WARP engine requested
  and exactly one thread, \<^verbatim>\<open>IndexScorerWARP\<close> with \<open>t_prime\<close> and \<open>bound\<close>; without
  the WARP engine, \<^verbatim>\<open>IndexScorer\<close>, which receives the index path, the GPU flag and
  the memory-map flag only. Neither \<^verbatim>\<open>configure\<close> nor any search changes the
  backend.
\<close>

theorem C7_engine_selection:
  assumes "Searcher_init e index_arg checkpoint_arg collection_arg cfg_arg index_root warp = Inr s"
  shows "(warp \<and> get_num_threads e > 1 \<longrightarrow>
            (\<exists>w. cfg_arg = WarpConfig w
               \<and> ranker s = ParallelIndexScorerWARP (index s) (on_cuda (checkpoint s))
                    (config s ''load_index_with_mmap'') (t_prime w) (bound w) (fused_ext w)))
       \<and> (warp \<and> get_num_threads e = 1 \<longrightarrow>
            (\<exists>w. cfg_arg = WarpConfig w
               \<and> ranker s = IndexScorerWARP (index s) (on_cuda (checkpoint s))
                    (config s ''load_index_with_mmap'') (t_prime w) (bound w)))
       \<and> (\<not> warp \<longrightarrow>
            ranker s = IndexScorer (index s) (on_cuda (checkpoint s))
                         (config s ''load_index_with_mmap''))
       \<and> warp_engine s = warp
       \<and> ranker (configure s kw_args) = ranker s
       \<and> ranker (snd (dense_search e s Q k filter_fn pids)) = ranker s
       \<and> ranker (snd (search e s text k filter_fn full pids)) = ranker s
       \<and> ranker (snd (search_all e s queries k filter_fn full qid_to_pids show_progress)) = ranker s"
proof -
  from assms obtain r where
    r: "resolve_config e index_arg checkpoint_arg collection_arg cfg_arg index_root = Inr r"
    and sel: "select_engine e warp r = Inr s"
    by (rule Searcher_init_InrD)
  note rd = resolve_config_InrD [OF r]
  note sd = select_engine_InrD [OF sel]
  have rk: "ranker s =
          (if warp then
             (case warp_config_of cfg_arg of
                None \<Rightarrow> ranker s
              | Some w \<Rightarrow>
                  if get_num_threads e = 1
                  then IndexScorerWARP (index s) (on_cuda (checkpoint s))
                         (config s ''load_index_with_mmap'') (t_prime w) (bound w)
                  else ParallelIndexScorerWARP (index s) (on_cuda (checkpoint s))
                         (config s ''load_index_with_mmap'') (t_prime w) (bound w) (fused_ext w))
           else IndexScorer (index s) (on_cuda (checkpoint s)) (config s ''load_index_with_mmap''))"
    using sd(9) by (simp only: sd(1,4) rd(1))
  have wc: "warp \<Longrightarrow> \<exists>w. cfg_arg = WarpConfig w"
    using sd(10) rd(1) by (cases cfg_arg) (simp_all add: warp_config_of_def)
  have par: "\<exists>w. cfg_arg = WarpConfig w
               \<and> ranker s = ParallelIndexScorerWARP (index s) (on_cuda (checkpoint s))
                    (config s ''load_index_with_mmap'') (t_prime w) (bound w) (fused_ext w)"
    if "warp" "get_num_threads e > 1"
  proof -
    from wc [OF that(1)] obtain w where w: "cfg_arg = WarpConfig w" ..
    show ?thesis
      using that by (subst rk) (simp add: w warp_config_of_def)
  qed
  have single: "\<exists>w. cfg_arg = WarpConfig w
               \<and> ranker s = IndexScorerWARP (index s) (on_cuda (checkpoint s))
                    (config s ''load_index_with_mmap'') (t_prime w) (bound w)"
    if "warp" "get_num_threads e = 1"
  proof -
    from wc [OF that(1)] obtain w where w: "cfg_arg = WarpConfig w" ..
    show ?thesis
      using that by (subst rk) (simp add: w warp_config_of_def)
  qed
  have base: "ranker s = IndexScorer (index s) (on_cuda (checkpoint s))
                         (config s ''load_index_with_mmap'')" if "\<not> warp"
    using that by (subst rk) simp
  show ?thesis
    using par single base sd(8)
    by (simp add: configure_fields dense_search_fields search_fields search_all_fields)
qed

theorem C7_engine_selection_witness:
  "ranker (projr (Searcher_init parallel_env ''lifestyle'' None None
                    (WarpConfig example_warp_config) None True))
     = ParallelIndexScorerWARP ''/experiments/lifestyle'' False None
         (Some (IntV 1000)) (Some (IntV 128)) (Some (BoolV True))
   \<and> ranker (projr (Searcher_init example_env ''lifestyle'' None None
                    (WarpConfig example_warp_config) None True))
     = IndexScorerWARP ''/experiments/lifestyle'' False None (Some (IntV 1000)) (Some (IntV 128))
   \<and> ranker (projr (Searcher_init example_env ''lifestyle'' None None
                    (WarpConfig example_warp_config) None False))
     = IndexScorer ''/experiments/lifestyle'' False None
   \<and> \<not> isl (Searcher_init parallel_env ''lifestyle'' None None
                    (WarpConfig example_warp_config) None True)
   \<and> \<not> isl (Searcher_init example_env ''lifestyle'' None None
                    (WarpConfig example_warp_config) None True)
   \<and> \<not> isl (Searcher_init example_env ''lifestyle'' None None
                    (WarpConfig example_warp_config) None False)"
proof -
  let ?cfg = "WarpConfig example_warp_config"
  note defs = construction_defs example_env_def parallel_env_def example_warp_config_def
  define s8 where "s8 = projr (Searcher_init parallel_env ''lifestyle'' None None ?cfg None True)"
  have s8: "Searcher_init parallel_env ''lifestyle'' None None ?cfg None True = Inr s8"
    unfolding s8_def by (simp add: defs)
  have v8: "index s8 = ''/experiments/lifestyle''" "config s8 ''load_index_with_mmap'' = None"
    "on_cuda (checkpoint s8) = False"
    unfolding s8_def by (simp_all add: defs)
  define s1 where "s1 = projr (Searcher_init example_env ''lifestyle'' None None ?cfg None True)"
  have s1: "Searcher_init example_env ''lifestyle'' None None ?cfg None True = Inr s1"
    unfolding s1_def by (simp add: defs)
  have v1: "index s1 = ''/experiments/lifestyle''" "config s1 ''load_index_with_mmap'' = None"
    "on_cuda (checkpoint s1) = False"
    unfolding s1_def by (simp_all add: defs)
  define s0 where "s0 = projr (Searcher_init example_env ''lifestyle'' None None ?cfg None False)"
  have s0: "Searcher_init example_env ''lifestyle'' None None ?cfg None False = Inr s0"
    unfolding s0_def by (simp add: defs)
  have v0: "index s0 = ''/experiments/lifestyle''" "config s0 ''load_index_with_mmap'' = None"
    "on_cuda (checkpoint s0) = False"
    unfolding s0_def by (simp_all add: defs)
  have threads: "get_num_threads parallel_env = 8" "get_num_threads example_env = 1"
    by (simp_all add: parallel_env_def example_env_def)
  have "ranker s8 = ParallelIndexScorerWARP ''/experiments/lifestyle'' False None
         (Some (IntV 1000)) (Some (IntV 128)) (Some (BoolV True))"
    using C7_engine_selection [OF s8, THEN conjunct1]
    by (simp add: v8 threads example_warp_config_def)
  moreover have "ranker s1 = IndexScorerWARP ''/experiments/lifestyle'' False None
         (Some (IntV 1000)) (Some (IntV 128))"
    using C7_engine_selection [OF s1, THEN conjunct2, THEN conjunct1]
    by (simp add: v1 threads example_warp_config_def)
  moreover have "ranker s0 = IndexScorer ''/experiments/lifestyle'' False None"
    using C7_engine_selection [OF s0, THEN conjunct2, THEN conjunct2, THEN conjunct1]
    by (simp add: v0)
  ultimately show ?thesis
    by (simp add: s8 s1 s0)
qed

subsection \<open>\<^verbatim>\<open>search_all\<close>\<close>

lemma search_all_Q_Inr:
  assumes "distinct (keys queries)"
    and "search_all_Q e s queries Q k filter_fn qid_to_pids show_progress = (Inr ranking, s')"
  shows "map fst (data ranking) = keys queries"
    and "provenance ranking =
           \<lparr> prov_source = ''Searcher::search_all'', prov_queries = batch_provenance queries,
             prov_config = config s', prov_k = k \<rparr>"
proof -
  let ?m = "case qid_to_pids of
              None \<Rightarrow> map_of (map (\<lambda>qid. (qid, None)) (keys queries))
            | Some m \<Rightarrow> m"
  let ?pairs = "tqdm (enumerate (keys queries)) (\<not> show_progress)"
  obtain r t where l: "search_each e s Q k filter_fn ?m ?pairs = (r, t)"
    by (cases "search_each e s Q k filter_fn ?m ?pairs")
  from assms(2) obtain rows where r: "r = Inr rows"
    unfolding search_all_Q_def Let_def l by (cases r) auto
  have len: "length rows = length (keys queries)"
    using search_each_length [OF l [unfolded r]] by (simp add: tqdm_def length_enumerate)
  have ranking: "ranking = \<lparr> data = dict_of (zip (keys queries) rows),
                    provenance = \<lparr> prov_source = ''Searcher::search_all'',
                                   prov_queries = batch_provenance queries,
                                   prov_config = Config_export (config t),
                                   prov_k = k \<rparr> \<rparr>" and t: "s' = t"
    using assms(2) unfolding search_all_Q_def Let_def l r by auto
  have "distinct (map fst (zip (keys queries) rows))"
    using assms(1) len by simp
  then have "dict_of (zip (keys queries) rows) = zip (keys queries) rows"
    by (rule dict_of_distinct)
  then show "map fst (data ranking) = keys queries"
    using len by (simp add: ranking)
  show "provenance ranking =
           \<lparr> prov_source = ''Searcher::search_all'', prov_queries = batch_provenance queries,
             prov_config = config s', prov_k = k \<rparr>"
    by (simp add: ranking t Config_export_def)
qed

lemma search_all_Q_returns:
  assumes "\<forall>rk cfg q kk ff p. \<not> isl (rank e rk cfg q kk ff p)"
    and "\<forall>m. qid_to_pids = Some m \<longrightarrow> set (keys queries) \<subseteq> dom m"
  shows "\<not> isl (fst (search_all_Q e s queries Q k filter_fn qid_to_pids show_progress))"
proof -
  let ?m = "case qid_to_pids of
              None \<Rightarrow> map_of (map (\<lambda>qid. (qid, None)) (keys queries))
            | Some m \<Rightarrow> m"
  let ?pairs = "tqdm (enumerate (keys queries)) (\<not> show_progress)"
  have "set (keys queries) \<subseteq> dom ?m"
  proof (cases qid_to_pids)
    case None
    have "dom (map_of (map (\<lambda>qid. (qid, None :: int list option)) (keys queries)))
            = set (keys queries)"
      by (simp add: dom_map_of_conv_image_fst image_image)
    then show ?thesis by (simp add: None)
  next
    case (Some m)
    then show ?thesis using assms(2) by simp
  qed
  then have "snd ` set ?pairs \<subseteq> dom ?m"
    by (simp add: tqdm_def snd_enumerate flip: set_map)
  from search_each_returns [OF assms(1) this]
  have ok: "\<not> isl (fst (search_each e s Q k filter_fn ?m ?pairs))" .
  obtain r t where l: "search_each e s Q k filter_fn ?m ?pairs = (r, t)"
    by (cases "search_each e s Q k filter_fn ?m ?pairs")
  from ok obtain rows where r: "r = Inr rows"
    unfolding l by (cases r) auto
  show ?thesis
    unfolding search_all_Q_def Let_def l r by simp
qed

text \<open>
  C8. For a query batch (a dictionary, so with distinct identifiers), every Ranking that
  \<^verbatim>\<open>search_all\<close> returns has exactly the batch's query identifiers as keys, in the
  batch's order, and one Provenance record for the batch, whose \<open>k\<close> is the requested
  \<open>k\<close> and whose \<open>queries\<close> is the batch's own provenance. \<^verbatim>\<open>search_all\<close> does
  return a Ranking whenever the encoder and the backend raise nothing and the candidate
  pools, if given, have an entry for every query identifier.
\<close>

theorem C8_search_all_ranking:
  assumes "distinct (keys queries)"
  shows "(\<forall>ranking s'.
            search_all e s queries k filter_fn full qid_to_pids show_progress = (Inr ranking, s')
            \<longrightarrow> map fst (data ranking) = keys queries
              \<and> prov_k (provenance ranking) = k
              \<and> prov_queries (provenance ranking) = batch_provenance queries
              \<and> prov_source (provenance ranking) = ''Searcher::search_all''
              \<and> prov_config (provenance ranking) = config s')
       \<and> (\<not> isl (encode e s (Texts (values_of queries)) full)
            \<and> (\<forall>rk cfg q kk ff p. \<not> isl (rank e rk cfg q kk ff p))
            \<and> (\<forall>m. qid_to_pids = Some m \<longrightarrow> set (keys queries) \<subseteq> dom m)
            \<longrightarrow> \<not> isl (fst (search_all e s queries k filter_fn full qid_to_pids show_progress)))"
proof (intro conjI allI impI)
  fix ranking s'
  assume ret: "search_all e s queries k filter_fn full qid_to_pids show_progress = (Inr ranking, s')"
  then obtain Q where
    "search_all_Q e s queries Q k filter_fn qid_to_pids show_progress = (Inr ranking, s')"
    by (cases "encode e s (Texts (values_of queries)) full") (simp_all add: search_all_def)
  note facts = search_all_Q_Inr [OF assms this]
  show "map fst (data ranking) = keys queries" by (rule facts(1))
  show "prov_k (provenance ranking) = k" by (simp add: facts(2))
  show "prov_queries (provenance ranking) = batch_provenance queries" by (simp add: facts(2))
  show "prov_source (provenance ranking) = ''Searcher::search_all''" by (simp add: facts(2))
  show "prov_config (provenance ranking) = config s'" by (simp add: facts(2))
next
  assume ok: "\<not> isl (encode e s (Texts (values_of queries)) full)
            \<and> (\<forall>rk cfg q kk ff p. \<not> isl (rank e rk cfg q kk ff p))
            \<and> (\<forall>m. qid_to_pids = Some m \<longrightarrow> set (keys queries) \<subseteq> dom m)"
  then obtain Q where Q: "encode e s (Texts (values_of queries)) full = Inr Q"
    by (cases "encode e s (Texts (values_of queries)) full") auto
  from ok have "\<not> isl (fst (search_all_Q e s queries Q k filter_fn qid_to_pids show_progress))"
    by (intro search_all_Q_returns) blast+
  then show "\<not> isl (fst (search_all e s queries k filter_fn full qid_to_pids show_progress))"
    by (simp add: search_all_def Q)
qed

theorem C8_search_all_ranking_witness:
  "\<not> isl (fst (search_all example_env example_searcher example_queries 3 None False None True))
   \<and> map fst (data (projr (fst (search_all example_env example_searcher example_queries 3
                                   None False None True)))) = [''a'', ''b'']
   \<and> prov_k (provenance (projr (fst (search_all example_env example_searcher example_queries 3
                                   None False None True)))) = 3
   \<and> prov_queries (provenance (projr (fst (search_all example_env example_searcher example_queries 3
                                   None False None True)))) = ''queries.tsv''"
proof -
  let ?run = "search_all example_env example_searcher example_queries 3 None False None True"
  have d: "distinct (keys example_queries)"
    by (simp add: keys_def example_queries_def)
  note inst = C8_search_all_ranking [OF d, of example_env example_searcher 3 None False None True]
  have enc: "\<not> isl (encode example_env example_searcher (Texts (values_of example_queries)) False)"
    by (simp add: encode_def Let_def example_env_fields)
  have rk: "\<forall>rk cfg q kk ff p. \<not> isl (rank example_env rk cfg q kk ff p)"
    by (simp add: example_env_fields)
  have pools: "\<forall>m. (None :: (string \<rightharpoonup> int list option) option) = Some m
                 \<longrightarrow> set (keys example_queries) \<subseteq> dom m"
    by simp
  have ret: "\<not> isl (fst ?run)"
    using inst [THEN conjunct2] enc rk pools by blast
  then obtain ranking where ranking: "?run = (Inr ranking, snd ?run)"
    by (cases ?run, cases "fst ?run") auto
  have "map fst (data ranking) = keys example_queries \<and> prov_k (provenance ranking) = 3
      \<and> prov_queries (provenance ranking) = batch_provenance example_queries"
    using inst [THEN conjunct1, rule_format, OF ranking] by simp
  then have "map fst (data (projr (fst ?run))) = [''a'', ''b'']
      \<and> prov_k (provenance (projr (fst ?run))) = 3
      \<and> prov_queries (provenance (projr (fst ?run))) = ''queries.tsv''"
    by (subst (1 2 3) ranking) (simp add: keys_def example_queries_def)
  with ret show ?thesis by simp
qed

text \<open>
  C9. Two runs of \<^verbatim>\<open>search_all\<close> on the same Searcher, collaborators and arguments
  that differ only in \<^verbatim>\<open>show_progress\<close> return the same outcome (the same Ranking,
  or the same error) and leave the Searcher in the same state: the flag reaches only
  \<^verbatim>\<open>tqdm\<close>, which yields the same items with and without a progress bar.
\<close>

theorem C9_progress_noninterference:
  "search_all e s queries k filter_fn full qid_to_pids True
     = search_all e s queries k filter_fn full qid_to_pids False"
proof -
  have loop: "search_all_Q e s queries Q k filter_fn qid_to_pids True
                = search_all_Q e s queries Q k filter_fn qid_to_pids False" for Q
    by (simp add: search_all_Q_def tqdm_def)
  show ?thesis
    by (cases "encode e s (Texts (values_of queries)) full") (simp_all add: search_all_def loop)
qed

theorem C9_progress_noninterference_witness:
  "search_all example_env example_searcher example_queries 3 None False None True
     = search_all example_env example_searcher example_queries 3 None False None False"
  by (rule C9_progress_noninterference)

end
